theory Spec2Isabelle
  imports Complex_Main
begin

section \<open>JavaScript values the client handles\<close>

text \<open>
  What a rejected promise or a \<^verbatim>\<open>throw\<close> carries. An axios failure either holds the
  server's response (its status and the \<^verbatim>\<open>message\<close> field of its body, when there is
  one) or holds none (timeout, network failure). \<^verbatim>\<open>new Error(m)\<close> is \<open>Error m\<close>.
\<close>

datatype exn =
    HttpError nat "string option"
  | TimeoutError
  | NetworkError
  | SecureStoreError
  | TypeError
  | Error string

text \<open>\<^verbatim>\<open>error.response?.status\<close> and \<^verbatim>\<open>error.response?.data?.message\<close>.\<close>

fun response_status :: "exn \<Rightarrow> nat option" where
  "response_status (HttpError st m) = Some st"
| "response_status e = None"

fun response_message :: "exn \<Rightarrow> string option" where
  "response_message (HttpError st m) = m"
| "response_message e = None"

text \<open>
  \<^verbatim>\<open>a || b\<close> for a string-or-undefined \<open>a\<close>: the empty string is falsy as well.
\<close>

definition js_or :: "string option \<Rightarrow> string \<Rightarrow> string" where
  "js_or a b = (case a of None \<Rightarrow> b | Some s \<Rightarrow> if s = [] then b else s)"

text \<open>
  The query text is inspected by \<^verbatim>\<open>String.prototype.trim\<close>, which works on the
  UTF-16 code units of a JavaScript string: it is a list of code units. (Messages, URLs
  and tokens, which the client only passes on or compares with literals, are \<open>string\<close>.)
  \<open>ascii\<close> gives the code units of an ASCII literal.
\<close>

type_synonym js_string = "nat list"

definition ascii :: "string \<Rightarrow> js_string" where
  "ascii s = map of_char s"

text \<open>
  The code units \<^verbatim>\<open>trim\<close> strips, the WhiteSpace and LineTerminator code points of
  ECMAScript: TAB, LF, VT, FF, CR, SPACE, NBSP (U+00A0), U+1680, U+2000 to U+200A, U+2028,
  U+2029, U+202F, U+205F, U+3000 and U+FEFF.
\<close>

definition js_whitespace :: "nat \<Rightarrow> bool" where
  "js_whitespace c =
     (c \<in> {0x09, 0x0A, 0x0B, 0x0C, 0x0D, 0x20, 0xA0, 0x1680, 0x2028, 0x2029, 0x202F, 0x205F,
            0x3000, 0xFEFF}
      \<or> (0x2000 \<le> c \<and> c \<le> 0x200A))"

definition trim :: "js_string \<Rightarrow> js_string" where
  "trim s = rev (dropWhile js_whitespace (rev (dropWhile js_whitespace s)))"

section \<open>The HTTP client (services/mlbApi.ts, class MLBApiService)\<close>

datatype http_method = GET | POST | DELETE

text \<open>The request bodies and query parameters the modelled methods send.\<close>

datatype body =
    NoBody
  | QueryBody js_string
  | TeamIdBody int
  | PlayerIdBody int
  | SearchParams js_string nat

record request =
  req_method :: http_method
  req_url :: string
  req_authorization :: "string option"
  req_body :: body

text \<open>
  What the backend does with a request: after some milliseconds it answers with a status,
  the \<^verbatim>\<open>message\<close> field of the body (if any) and the body as the client reads it, or
  the connection fails. The backend is not part of the client: it is a parameter.
\<close>

datatype 'd reply = Reply nat "string option" 'd | NoReply

type_synonym 'd backend = "request \<Rightarrow> nat \<times> 'd reply"

text \<open>
  \<^verbatim>\<open>
  this.api = axios.create({ baseURL: API_BASE_URL, timeout: 30000,
                            headers: { 'Content-Type': 'application/json' } });
  \<close>
  The configuration file of the app (.env example) declares
  \<^verbatim>\<open>API_TIMEOUT=10000   # 10 seconds\<close>; the service never reads it.
\<close>

record axios_config =
  baseURL :: string
  timeout_ms :: nat

definition API_TIMEOUT :: nat where
  "API_TIMEOUT = 10000"

definition axios_create :: "string \<Rightarrow> axios_config" where
  "axios_create api_base_url = \<lparr>baseURL = api_base_url, timeout_ms = 30000\<rparr>"

text \<open>
  The transport of axios: a request whose answer takes longer than the configured timeout
  is aborted (a timeout of 0 means none); a status outside 200..299 rejects.
\<close>

definition axios_transport :: "axios_config \<Rightarrow> 'd backend \<Rightarrow> request \<Rightarrow> exn + 'd" where
  "axios_transport cfg be req =
     (case be req of (latency, r) \<Rightarrow>
        if timeout_ms cfg \<noteq> 0 \<and> timeout_ms cfg < latency then Inl TimeoutError
        else (case r of
                NoReply \<Rightarrow> Inl NetworkError
              | Reply st m d \<Rightarrow> if 200 \<le> st \<and> st < 300 then Inr d else Inl (HttpError st m)))"

text \<open>
  The mutable state of the service and of the device's secure store: the in-memory
  \<^verbatim>\<open>authToken\<close>, the item \<^verbatim>\<open>'auth_token'\<close> of SecureStore, the number of
  \<^verbatim>\<open>deleteItemAsync\<close> calls made so far, and the requests handed to the transport, oldest
  first.
\<close>

record service =
  authToken :: "string option"
  secure_auth_token :: "string option"
  secure_deletes :: nat
  sent :: "request list"

text \<open>
  The environment of one operation: the API base URL, the backend, and whether the k-th
  \<^verbatim>\<open>SecureStore.deleteItemAsync\<close> call succeeds (its promise may reject).
\<close>

record 'd env =
  api_base_url :: string
  backend :: "'d backend"
  delete_ok :: "nat \<Rightarrow> bool"

definition deleteItemAsync :: "'d env \<Rightarrow> service \<Rightarrow> (exn + unit) \<times> service" where
  "deleteItemAsync env s =
     (let s' = s\<lparr>secure_deletes := Suc (secure_deletes s)\<rparr>
      in if delete_ok env (secure_deletes s)
         then (Inr (), s'\<lparr>secure_auth_token := None\<rparr>)
         else (Inl SecureStoreError, s'))"

text \<open>
  \<^verbatim>\<open>
  private async handleAuthError() {
    await SecureStore.deleteItemAsync('auth_token');
    this.authToken = null;
  }
  \<close>
\<close>

definition handleAuthError :: "'d env \<Rightarrow> service \<Rightarrow> (exn + unit) \<times> service" where
  "handleAuthError env s =
     (case deleteItemAsync env s of
        (Inl e, s') \<Rightarrow> (Inl e, s')
      | (Inr u, s') \<Rightarrow> (Inr (), s'\<lparr>authToken := None\<rparr>))"

text \<open>
  One request through \<^verbatim>\<open>this.api\<close>. The request interceptor adds
  \<^verbatim>\<open>Authorization: Token <authToken>\<close> when \<^verbatim>\<open>authToken\<close> is truthy; the response
  interceptor, on a 401, awaits \<^verbatim>\<open>handleAuthError()\<close> and then rejects with the same
  error (or with what \<^verbatim>\<open>handleAuthError\<close> threw).
\<close>

definition authorization_header :: "string option \<Rightarrow> string option" where
  "authorization_header tok =
     (case tok of None \<Rightarrow> None | Some t \<Rightarrow> if t = [] then None else Some (''Token '' @ t))"

definition api_request ::
  "'d env \<Rightarrow> http_method \<Rightarrow> string \<Rightarrow> body \<Rightarrow> service \<Rightarrow> (exn + 'd) \<times> service" where
  "api_request env m u b s =
     (let req = \<lparr>req_method = m, req_url = u,
                 req_authorization = authorization_header (authToken s), req_body = b\<rparr>;
          s1 = s\<lparr>sent := sent s @ [req]\<rparr>
      in case axios_transport (axios_create (api_base_url env)) (backend env) req of
           Inr d \<Rightarrow> (Inr d, s1)
         | Inl e \<Rightarrow>
             if response_status e = Some 401
             then (case handleAuthError env s1 of
                     (Inl e', s2) \<Rightarrow> (Inl e', s2)
                   | (Inr u, s2) \<Rightarrow> (Inl e, s2))
             else (Inl e, s1))"

text \<open>
  \<^verbatim>\<open>
  async logout(): Promise<void> {
    try { await this.api.post('/api/v1/auth/logout/'); }
    catch (error) { /* Even if logout fails, clear local data */ }
    finally { await SecureStore.deleteItemAsync('auth_token'); this.authToken = null; }
  }
  \<close>
  An exception of the \<^verbatim>\<open>finally\<close> block leaves the block at once and rejects the
  promise.
\<close>

definition mlbApi_logout :: "'d env \<Rightarrow> service \<Rightarrow> (exn + unit) \<times> service" where
  "mlbApi_logout env s =
     (case api_request env POST ''/api/v1/auth/logout/'' NoBody s of
        (r, s1) \<Rightarrow>
          (case deleteItemAsync env s1 of
             (Inl e, s2) \<Rightarrow> (Inl e, s2)
           | (Inr u, s2) \<Rightarrow> (Inr (), s2\<lparr>authToken := None\<rparr>)))"

text \<open>
  \<^verbatim>\<open>
  async naturalLanguageSearch(query: string): Promise<any> {
    try {
      const response = await this.api.post('/api/v1/search/natural/', { query });
      return response.data;
    } catch (error: any) {
      throw new Error(error.response?.data?.message || 'Search failed');
    }
  }
  \<close>
\<close>

definition naturalLanguageSearch ::
  "'d env \<Rightarrow> js_string \<Rightarrow> service \<Rightarrow> (exn + 'd) \<times> service" where
  "naturalLanguageSearch env q s =
     (case api_request env POST ''/api/v1/search/natural/'' (QueryBody q) s of
        (Inr d, s') \<Rightarrow> (Inr d, s')
      | (Inl e, s') \<Rightarrow> (Inl (Error (js_or (response_message e) ''Search failed'')), s'))"

text \<open>
  \<^verbatim>\<open>
  async addFavoriteTeam(teamId: number): Promise<any> {
    try {
      const response = await this.api.post('/api/favorites/teams/', { teamId });
      return response.data;
    } catch (error: any) {
      throw new Error(error.response?.data?.message || 'Failed to add favorite team');
    }
  }
  \<close>
  and the same for \<^verbatim>\<open>addFavoritePlayer\<close> with \<^verbatim>\<open>'/api/favorites/players/'\<close>.
\<close>

definition mlbApi_addFavoriteTeam :: "'d env \<Rightarrow> int \<Rightarrow> service \<Rightarrow> (exn + 'd) \<times> service" where
  "mlbApi_addFavoriteTeam env teamId s =
     (case api_request env POST ''/api/favorites/teams/'' (TeamIdBody teamId) s of
        (Inr d, s') \<Rightarrow> (Inr d, s')
      | (Inl e, s') \<Rightarrow>
          (Inl (Error (js_or (response_message e) ''Failed to add favorite team'')), s'))"

definition mlbApi_addFavoritePlayer :: "'d env \<Rightarrow> int \<Rightarrow> service \<Rightarrow> (exn + 'd) \<times> service" where
  "mlbApi_addFavoritePlayer env playerId s =
     (case api_request env POST ''/api/favorites/players/'' (PlayerIdBody playerId) s of
        (Inr d, s') \<Rightarrow> (Inr d, s')
      | (Inl e, s') \<Rightarrow>
          (Inl (Error (js_or (response_message e) ''Failed to add favorite player'')), s'))"

section \<open>The Search store (store/index\_clean.ts, useSearchStore)\<close>

text \<open>
  \<^verbatim>\<open>Date.now().toString()\<close>: the decimal rendering of a non-negative integer clock
  reading (milliseconds since the epoch).
\<close>

definition digit_char :: "nat \<Rightarrow> char" where
  "digit_char d = char_of (of_char (CHR ''0'') + d)"

function toString :: "nat \<Rightarrow> string" where
  "toString n = (if n < 10 then [digit_char n] else toString (n div 10) @ [digit_char (n mod 10)])"
  by pat_completeness auto
termination
  by (relation "measure (\<lambda>n. n)") auto

text \<open>
  One element of \<^verbatim>\<open>recentSearches\<close>:
  \<^verbatim>\<open>{ id: string; query: string; timestamp: number; results: number }\<close>.
  The fields carry the prefix \<open>rs_\<close> (\<open>id\<close> is a constant of HOL, and \<open>results\<close> and
  \<open>query\<close> are fields of other objects of the program as well).
\<close>

record recent_search =
  rs_id :: string
  rs_query :: js_string
  rs_timestamp :: nat
  rs_results :: nat

text \<open>The state of \<^verbatim>\<open>useSearchStore\<close>; \<open>'r\<close> is the type of one search result (\<^verbatim>\<open>any\<close>).\<close>

record 'r search_state =
  recentSearches :: "recent_search list"
  isSearching :: bool
  currentResults :: "'r list"

definition search_initial :: "'r search_state" where
  "search_initial = \<lparr>recentSearches = [], isSearching = False, currentResults = []\<rparr>"

text \<open>
  \<^verbatim>\<open>
  addSearch: (query, results) => {
    const { recentSearches } = get();
    const newSearch = { id: Date.now().toString(), query, timestamp: Date.now(),
                        results: results.length };
    const updatedSearches = [newSearch, ...recentSearches.slice(0, 19)];
    set({ recentSearches: updatedSearches });
  }
  \<close>
  The clock is read twice; \<open>now_id\<close> and \<open>now_ts\<close> are the two readings.
  \<^verbatim>\<open>slice(0, 19)\<close> is \<open>take 19\<close>.
\<close>

definition newSearch :: "nat \<Rightarrow> nat \<Rightarrow> js_string \<Rightarrow> 'r list \<Rightarrow> recent_search" where
  "newSearch now_id now_ts q rs =
     \<lparr>rs_id = toString now_id, rs_query = q, rs_timestamp = now_ts, rs_results = length rs\<rparr>"

definition addSearch ::
  "nat \<Rightarrow> nat \<Rightarrow> js_string \<Rightarrow> 'r list \<Rightarrow> 'r search_state \<Rightarrow> 'r search_state" where
  "addSearch now_id now_ts q rs st =
     (let updatedSearches = newSearch now_id now_ts q rs # take 19 (recentSearches st)
      in st\<lparr>recentSearches := updatedSearches\<rparr>)"

definition clearSearchHistory :: "'r search_state \<Rightarrow> 'r search_state" where
  "clearSearchHistory st = st\<lparr>recentSearches := []\<rparr>"

definition setSearchResults :: "'r list \<Rightarrow> 'r search_state \<Rightarrow> 'r search_state" where
  "setSearchResults rs st = st\<lparr>currentResults := rs\<rparr>"

definition setSearching :: "bool \<Rightarrow> 'r search_state \<Rightarrow> 'r search_state" where
  "setSearching b st = st\<lparr>isSearching := b\<rparr>"

section \<open>Payloads\<close>

text \<open>
  The backend's JSON bodies are \<^verbatim>\<open>any\<close> to the client. They are modelled as far as the
  client reads them: an element of a \<^verbatim>\<open>results\<close> array with the properties the search
  screen reads (\<^verbatim>\<open>player.id\<close>, \<^verbatim>\<open>player.name\<close>, \<^verbatim>\<open>player.position\<close>,
  \<^verbatim>\<open>player.team\<close>), and a body that is \<^verbatim>\<open>null\<close>/\<^verbatim>\<open>undefined\<close>, another falsy value, or
  a truthy value with its \<^verbatim>\<open>results\<close> property (\<open>None\<close> when absent or falsy, else the
  array), the truthiness of its \<^verbatim>\<open>success\<close> property and its \<^verbatim>\<open>data\<close> property.
\<close>

record result_item =
  item_id :: int
  item_name :: string
  item_position :: string
  item_team :: string

datatype 'a data =
    Null
  | Falsy
  | Data "result_item list option" bool 'a

text \<open>
  \<^verbatim>\<open>
  async searchPlayers(query: string): Promise<PlayerSearchResult[]> {
    try {
      const response = await this.api.get('/api/players/search/',
                                          { params: { q: query, limit: 20 } });
      return response.data.results;
    } catch (error: any) {
      console.error('Player search error:', error);
      throw new Error('Failed to search players');
    }
  }
  \<close>
  Reading \<^verbatim>\<open>.results\<close> of a \<^verbatim>\<open>null\<close> body is a TypeError inside the \<^verbatim>\<open>try\<close>.
\<close>

definition searchPlayers ::
  "'a data env \<Rightarrow> js_string \<Rightarrow> service \<Rightarrow> (exn + result_item list option) \<times> service" where
  "searchPlayers env q s =
     (case api_request env GET ''/api/players/search/'' (SearchParams q 20) s of
        (Inl e, s') \<Rightarrow> (Inl (Error ''Failed to search players''), s')
      | (Inr Null, s') \<Rightarrow> (Inl (Error ''Failed to search players''), s')
      | (Inr Falsy, s') \<Rightarrow> (Inr None, s')
      | (Inr (Data rs ok d), s') \<Rightarrow> (Inr rs, s'))"

section \<open>The Auth store (store/index\_clean.ts, useAuthStore)\<close>

record 'u auth_state =
  user :: "'u option"
  isAuthenticated :: bool
  isLoading :: bool
  error :: "string option"

definition auth_initial :: "'u auth_state" where
  "auth_initial = \<lparr>user = None, isAuthenticated = False, isLoading = False, error = None\<rparr>"

text \<open>
  \<^verbatim>\<open>
  logout: async () => {
    set({ isLoading: true });
    try { await mlbApi.logout(); }
    catch (error) { console.error('Logout error:', error); }
    finally { set({ user: null, isAuthenticated: false, isLoading: false, error: null }); }
  }
  \<close>
  The first component of the result is how the returned promise settles.
\<close>

fun logout :: "'d env \<Rightarrow> service \<times> 'u auth_state \<Rightarrow> (exn + unit) \<times> service \<times> 'u auth_state" where
  "logout env (svc, st) =
     (let st1 = st\<lparr>isLoading := True\<rparr>
      in case mlbApi_logout env svc of
           (r, svc') \<Rightarrow>
             (Inr (), svc',
              st1\<lparr>user := None, isAuthenticated := False, isLoading := False, error := None\<rparr>))"

definition clearError :: "'u auth_state \<Rightarrow> 'u auth_state" where
  "clearError st = st\<lparr>error := None\<rparr>"

section \<open>The Favorites store (store/index\_clean.ts, useFavoritesStore)\<close>

record favorites_state =
  favoriteTeams :: "int list"
  favoritePlayers :: "int list"

definition favorites_initial :: favorites_state where
  "favorites_initial = \<lparr>favoriteTeams = [], favoritePlayers = []\<rparr>"

text \<open>
  \<^verbatim>\<open>
  addFavoriteTeam: async (teamId: number) => {
    try {
      await mlbApi.addFavoriteTeam(teamId);
      const { favoriteTeams } = get();
      if (!favoriteTeams.includes(teamId)) {
        set({ favoriteTeams: [...favoriteTeams, teamId] });
      }
    } catch (error) {
      console.error('Add favorite team error:', error);
      throw error;
    }
  }
  \<close>
  The store is read and written after the \<^verbatim>\<open>await\<close>, with no suspension in between.
  Team and player ids are integers.
\<close>

fun addFavoriteTeam ::
  "'d env \<Rightarrow> int \<Rightarrow> service \<times> favorites_state \<Rightarrow> (exn + unit) \<times> service \<times> favorites_state" where
  "addFavoriteTeam env teamId (svc, fav) =
     (case mlbApi_addFavoriteTeam env teamId svc of
        (Inl e, svc') \<Rightarrow> (Inl e, svc', fav)
      | (Inr d, svc') \<Rightarrow>
          (Inr (), svc',
           if teamId \<in> set (favoriteTeams fav) then fav
           else fav\<lparr>favoriteTeams := favoriteTeams fav @ [teamId]\<rparr>))"

text \<open>\<^verbatim>\<open>set({ favoriteTeams: favoriteTeams.filter(id => id !== teamId) })\<close>\<close>

definition removeFavoriteTeam :: "int \<Rightarrow> favorites_state \<Rightarrow> favorites_state" where
  "removeFavoriteTeam teamId fav =
     fav\<lparr>favoriteTeams := filter (\<lambda>i. i \<noteq> teamId) (favoriteTeams fav)\<rparr>"

fun addFavoritePlayer ::
  "'d env \<Rightarrow> int \<Rightarrow> service \<times> favorites_state \<Rightarrow> (exn + unit) \<times> service \<times> favorites_state" where
  "addFavoritePlayer env playerId (svc, fav) =
     (case mlbApi_addFavoritePlayer env playerId svc of
        (Inl e, svc') \<Rightarrow> (Inl e, svc', fav)
      | (Inr d, svc') \<Rightarrow>
          (Inr (), svc',
           if playerId \<in> set (favoritePlayers fav) then fav
           else fav\<lparr>favoritePlayers := favoritePlayers fav @ [playerId]\<rparr>))"

definition removeFavoritePlayer :: "int \<Rightarrow> favorites_state \<Rightarrow> favorites_state" where
  "removeFavoritePlayer playerId fav =
     fav\<lparr>favoritePlayers := filter (\<lambda>i. i \<noteq> playerId) (favoritePlayers fav)\<rparr>"

definition isFavoriteTeam :: "int \<Rightarrow> favorites_state \<Rightarrow> bool" where
  "isFavoriteTeam teamId fav = (teamId \<in> set (favoriteTeams fav))"

definition isFavoritePlayer :: "int \<Rightarrow> favorites_state \<Rightarrow> bool" where
  "isFavoritePlayer playerId fav = (playerId \<in> set (favoritePlayers fav))"

text \<open>
  A history of the store: each add or remove action with the environment it runs in. An
  add that rejects is seen by its caller only; the store goes on from the state it left.
\<close>

datatype favorites_action =
    AddTeam int
  | RemoveTeam int
  | AddPlayer int
  | RemovePlayer int

fun favorites_step ::
  "'d env \<times> favorites_action \<Rightarrow> service \<times> favorites_state \<Rightarrow> service \<times> favorites_state" where
  "favorites_step (env, AddTeam t) st = snd (addFavoriteTeam env t st)"
| "favorites_step (env, AddPlayer p) st = snd (addFavoritePlayer env p st)"
| "favorites_step (env, RemoveTeam t) (svc, fav) = (svc, removeFavoriteTeam t fav)"
| "favorites_step (env, RemovePlayer p) (svc, fav) = (svc, removeFavoritePlayer p fav)"

fun favorites_run ::
  "('d env \<times> favorites_action) list \<Rightarrow> service \<times> favorites_state \<Rightarrow> service \<times> favorites_state" where
  "favorites_run [] st = st"
| "favorites_run (a # as) st = favorites_run as (favorites_step a st)"

section \<open>The search screen and the search hook\<close>

text \<open>
  The state \<^verbatim>\<open>handleSearch\<close> of screens/search/SearchScreen.tsx writes: \<^verbatim>\<open>loading\<close>,
  \<^verbatim>\<open>results\<close> and \<^verbatim>\<open>nlResponse\<close>. One \<^verbatim>\<open>SearchResult\<close> it builds:
  \<^verbatim>\<open>
  { id: player.id, type: 'player', title: player.name,
    subtitle: `${player.position} - ${player.team}`, data: player, relevance: 1 }
  \<close>
\<close>

datatype result_type = PlayerResult | TeamResult | StatResult | GameResult

record search_result =
  sr_id :: int
  sr_type :: result_type
  sr_title :: string
  sr_subtitle :: string
  sr_data :: result_item
  sr_relevance :: nat

record 'a search_screen =
  loading :: bool
  results :: "search_result list"
  nlResponse :: "'a data option"

definition to_search_result :: "result_item \<Rightarrow> search_result" where
  "to_search_result p =
     \<lparr>sr_id = item_id p, sr_type = PlayerResult, sr_title = item_name p,
      sr_subtitle = item_position p @ '' - '' @ item_team p, sr_data = p, sr_relevance = 1\<rparr>"

text \<open>
  \<^verbatim>\<open>
  const handleSearch = async (searchQuery: string) => {
    if (!searchQuery.trim()) return;
    setLoading(true);
    try {
      const nlResult = await mlbApi.naturalLanguageSearch(searchQuery);
      if (nlResult) { setNlResponse(nlResult); addSearch(searchQuery, nlResult.results || []); }
      const searchResult = await mlbApi.searchPlayers(searchQuery);
      if (searchResult && searchResult.length > 0) {
        const searchResults = searchResult.map((player: any) => ({ ... }));
        setResults(searchResults);
      }
    } catch (error) { console.error('Search error:', error); }
    finally { setLoading(false); }
  };
  \<close>
  \<open>now_id\<close> and \<open>now_ts\<close> are the clock readings \<^verbatim>\<open>addSearch\<close> takes.
\<close>

definition record_nl_result ::
  "nat \<Rightarrow> nat \<Rightarrow> js_string \<Rightarrow> 'a data \<Rightarrow> result_item search_state \<times> 'a search_screen
     \<Rightarrow> result_item search_state \<times> 'a search_screen" where
  "record_nl_result now_id now_ts searchQuery nlResult st =
     (case nlResult of
        Data rs ok d \<Rightarrow>
          (addSearch now_id now_ts searchQuery (case rs of None \<Rightarrow> [] | Some xs \<Rightarrow> xs) (fst st),
           (snd st)\<lparr>nlResponse := Some nlResult\<rparr>)
      | _ \<Rightarrow> st)"

definition show_players :: "result_item list option \<Rightarrow> 'a search_screen \<Rightarrow> 'a search_screen" where
  "show_players searchResult scr =
     (case searchResult of
        Some (p # ps) \<Rightarrow> scr\<lparr>results := map to_search_result (p # ps)\<rparr>
      | _ \<Rightarrow> scr)"

fun handleSearch ::
  "'a data env \<Rightarrow> nat \<Rightarrow> nat \<Rightarrow> js_string
     \<Rightarrow> service \<times> result_item search_state \<times> 'a search_screen
     \<Rightarrow> (exn + unit) \<times> service \<times> result_item search_state \<times> 'a search_screen" where
  "handleSearch env now_id now_ts searchQuery (svc, store, scr) =
     (if trim searchQuery = [] then (Inr (), svc, store, scr)
      else
        let scr1 = scr\<lparr>loading := True\<rparr>
        in case naturalLanguageSearch env searchQuery svc of
             (Inl e, svc1) \<Rightarrow> (Inr (), svc1, store, scr1\<lparr>loading := False\<rparr>)
           | (Inr nlResult, svc1) \<Rightarrow>
               (case record_nl_result now_id now_ts searchQuery nlResult (store, scr1) of
                  (store1, scr2) \<Rightarrow>
                    (case searchPlayers env searchQuery svc1 of
                       (Inl e, svc2) \<Rightarrow> (Inr (), svc2, store1, scr2\<lparr>loading := False\<rparr>)
                     | (Inr searchResult, svc2) \<Rightarrow>
                         (Inr (), svc2, store1,
                          (show_players searchResult scr2)\<lparr>loading := False\<rparr>))))"

text \<open>
  The hook \<^verbatim>\<open>useNaturalLanguageSearch\<close> of hooks/index.ts:
  \<^verbatim>\<open>
  const search = async (searchQuery: string) => {
    if (!searchQuery.trim()) { setResults(null); return; }
    setLoading(true);
    try {
      const response = await mlbApi.naturalLanguageSearch(searchQuery);
      if (response.success) { setResults(response.data); }
    } catch (error) { console.error('Natural language search error:', error); }
    finally { setLoading(false); }
  };
  \<close>
\<close>

record 'a search_hook =
  hook_query :: js_string
  hook_results :: "'a option"
  hook_loading :: bool

fun search ::
  "'a data env \<Rightarrow> js_string \<Rightarrow> service \<times> 'a search_hook
     \<Rightarrow> (exn + unit) \<times> service \<times> 'a search_hook" where
  "search env searchQuery (svc, h) =
     (if trim searchQuery = [] then (Inr (), svc, h\<lparr>hook_results := None\<rparr>)
      else
        let h1 = h\<lparr>hook_loading := True\<rparr>
        in case naturalLanguageSearch env searchQuery svc of
             (Inl e, svc1) \<Rightarrow> (Inr (), svc1, h1\<lparr>hook_loading := False\<rparr>)
           | (Inr (Data rs ok d), svc1) \<Rightarrow>
               (Inr (), svc1,
                (if ok then h1\<lparr>hook_results := Some d\<rparr> else h1)\<lparr>hook_loading := False\<rparr>)
           | (Inr other, svc1) \<Rightarrow> (Inr (), svc1, h1\<lparr>hook_loading := False\<rparr>))"

section \<open>Concrete states and environments\<close>

text \<open>
  A signed-in client, and its environments: a backend that answers every request at once
  with status 200; one that cannot be reached; one that answers 200 while the secure
  store refuses to delete; one that answers 404 with a message; one that answers 401 with
  a message, with a secure store that deletes and with one that refuses; one that answers
  200 after 15 seconds; and one that would answer after 30.001 seconds.
\<close>

definition svc_signed_in :: service where
  "svc_signed_in =
     \<lparr>authToken = Some ''abc123'', secure_auth_token = Some ''abc123'',
      secure_deletes = 0, sent = []\<rparr>"

definition auth_signed_in :: "string auth_state" where
  "auth_signed_in =
     \<lparr>user = Some ''fan@example.com'', isAuthenticated = True, isLoading = False,
      error = Some ''Login failed''\<rparr>"

definition reply_ok :: "unit data reply" where
  "reply_ok = Reply 200 None (Data None True ())"

definition backend_ok :: "unit data backend" where
  "backend_ok req = (0, reply_ok)"

definition backend_down :: "unit data backend" where
  "backend_down req = (0, NoReply)"

definition backend_slow :: "unit data backend" where
  "backend_slow req = (15000, reply_ok)"

definition always :: "nat \<Rightarrow> bool" where
  "always k = True"

definition never :: "nat \<Rightarrow> bool" where
  "never k = False"

definition env_ok :: "unit data env" where
  "env_ok = \<lparr>api_base_url = ''http://10.0.0.22:8000'', backend = backend_ok, delete_ok = always\<rparr>"

definition env_backend_down :: "unit data env" where
  "env_backend_down =
     \<lparr>api_base_url = ''http://10.0.0.22:8000'', backend = backend_down, delete_ok = always\<rparr>"

definition env_store_refuses :: "unit data env" where
  "env_store_refuses =
     \<lparr>api_base_url = ''http://10.0.0.22:8000'', backend = backend_ok, delete_ok = never\<rparr>"






definition backend_stalled :: "unit data backend" where
  "backend_stalled req = (30001, reply_ok)"

definition env_stalled :: "unit data env" where
  "env_stalled =
     \<lparr>api_base_url = ''http://10.0.0.22:8000'', backend = backend_stalled, delete_ok = always\<rparr>"

definition env_slow :: "unit data env" where
  "env_slow = \<lparr>api_base_url = ''http://10.0.0.22:8000'', backend = backend_slow, delete_ok = always\<rparr>"

definition fav_example :: favorites_state where
  "fav_example = \<lparr>favoriteTeams = [147], favoritePlayers = [592450]\<rparr>"

definition history_example :: "(unit data env \<times> favorites_action) list" where
  "history_example =
     [(env_ok, AddTeam 147), (env_ok, AddTeam 147), (env_backend_down, AddTeam 119),
      (env_ok, AddPlayer 592450), (env_ok, RemoveTeam 147), (env_ok, AddPlayer 592450)]"

definition screen_idle :: "unit search_screen" where
  "screen_idle = \<lparr>loading = False, results = [], nlResponse = None\<rparr>"

definition hook_idle :: "unit search_hook" where
  "hook_idle = \<lparr>hook_query = [], hook_results = Some (), hook_loading = False\<rparr>"

section \<open>The query resolver of the backend, from its specification\<close>

text \<open>
  The client sends the query text to the backend (\<^verbatim>\<open>POST /api/v1/search/natural/\<close>,
  \<^verbatim>\<open>GET /api/players/search/\<close>) and displays the reply; the resolver that computes the
  reply is backend code, of which the client holds only the calls. The parts of it that
  the properties below are about are modelled from the specification (sections 3, 4.1,
  4.4 and 4.5).
\<close>

datatype kind = Player | Team | Venue

record entity =
  ent_id :: nat
  ent_kind :: kind
  canonicalName :: string
  aliases :: "string list"
  attributes :: "(string \<times> string) list"

datatype match_type = Exact | Alias | Fuzzy

text \<open>
  A Candidate Match: \<^verbatim>\<open>span\<close> (here \<open>match_span\<close>: \<open>span\<close> is a constant of HOL),
  \<^verbatim>\<open>entity\<close>, \<^verbatim>\<open>confidence\<close> (0.0 to 1.0) and \<^verbatim>\<open>matchType\<close>.
\<close>

record candidate_match =
  match_span :: string
  entity :: entity
  confidence :: real
  matchType :: match_type

text \<open>
  Modelled from the spec: the rank of a match type in the catalog's ordering by match
  quality, exact before alias before fuzzy (section 4.1; the catalog's code is missing).
\<close>

fun match_rank :: "match_type \<Rightarrow> nat" where
  "match_rank Exact = 0"
| "match_rank Alias = 1"
| "match_rank Fuzzy = 2"

text \<open>
  Modelled from the spec: the minimum confidence floor of the catalog, default 0.35
  (section 4.1; the catalog's code is missing).
\<close>

definition confidence_floor :: real where
  "confidence_floor = 35 / 100"

text \<open>
  Modelled from the spec: the matching of a text against the entities of one kind in the
  Entity Catalog (section 4.1; the catalog's code is missing). The specification gives no
  formula for the confidence of an alias or fuzzy match, so the scoring of a text
  against one entity (\<open>None\<close>: no match; otherwise the match type and the confidence) is
  the parameter \<open>score\<close>.
\<close>

definition candidates ::
  "(string \<Rightarrow> entity \<Rightarrow> (match_type \<times> real) option) \<Rightarrow> entity list \<Rightarrow> kind \<Rightarrow> string
     \<Rightarrow> candidate_match list" where
  "candidates score catalog k txt =
     List.map_filter
       (\<lambda>e. case score txt e of
               None \<Rightarrow> None
             | Some (mt, c) \<Rightarrow>
                 Some \<lparr>match_span = txt, entity = e, confidence = c, matchType = mt\<rparr>)
       (filter (\<lambda>e. ent_kind e = k) catalog)"

text \<open>
  Modelled from the spec: \<^verbatim>\<open>lookup(kind, text)\<close> of the Entity Catalog (section 4.1; its
  code is missing): the candidate matches ranked by match quality (exact, alias, fuzzy;
  catalog order within one quality), without those that do not clear the minimum
  confidence floor, so that the result is empty when none clears it.
\<close>

definition lookup_with_floor ::
  "real \<Rightarrow> (string \<Rightarrow> entity \<Rightarrow> (match_type \<times> real) option) \<Rightarrow> entity list \<Rightarrow> kind \<Rightarrow> string
     \<Rightarrow> candidate_match list" where
  "lookup_with_floor min_conf score catalog k txt =
     filter (\<lambda>m. min_conf \<le> confidence m)
       (sort_key (\<lambda>m. match_rank (matchType m)) (candidates score catalog k txt))"

text \<open>
  Modelled from the spec: \<^verbatim>\<open>lookup(kind, text)\<close> with the default floor (section 4.1; its
  code is missing).
\<close>

definition lookup ::
  "(string \<Rightarrow> entity \<Rightarrow> (match_type \<times> real) option) \<Rightarrow> entity list \<Rightarrow> kind \<Rightarrow> string
     \<Rightarrow> candidate_match list" where
  "lookup = lookup_with_floor confidence_floor"

datatype intent =
    PLAYER_AT_VENUE
  | PLAYER_SEASON_STAT
  | TEAM_STANDING
  | LEAGUE_LEADER
  | HEAD_TO_HEAD

text \<open>A value of \<^verbatim>\<open>facts\<close>: numeric or textual.\<close>

datatype fact_value = Numeric real | Textual string

type_synonym bindings = "(string \<times> fact_value) list"

text \<open>
  A Fetch Step: the name its output is bound to, the external operation, its input
  bindings (names of earlier outputs or of resolved entities) and whether its failure is
  fatal to the plan or tolerable. A Query Plan: the steps in their order, with the intent
  and the bound entities it was built from.
\<close>

record fetch_step =
  step_name :: string
  operation :: string
  inputs :: "string list"
  fatal :: bool

record query_plan =
  plan_intent :: intent
  plan_entities :: "candidate_match list"
  steps :: "fetch_step list"

text \<open>
  What the fact source does with one step, given the outputs bound so far: it returns
  the step's data, or the call fails (a timeout is a failure) with a cause.
\<close>

datatype step_outcome = Fetched fact_value | StepFailed string

type_synonym fact_source = "fetch_step \<Rightarrow> bindings \<Rightarrow> step_outcome"

datatype plan_execution_error = PlanExecutionError string string

record answer =
  intent :: intent
  boundEntities :: "candidate_match list"
  facts :: bindings
  answer_confidence :: real
  partial :: bool
  narrative :: string

text \<open>
  Modelled from the spec: the step loop of the Result Aggregator (section 4.5; its code is
  missing). Steps run in declared order; the output of each is bound to the name it
  declares; a fatal failure aborts with a \<^verbatim>\<open>PlanExecutionError\<close> carrying the step's
  identity and the cause; a tolerable failure is recorded as a gap and the loop goes on.
\<close>

fun run_steps ::
  "fact_source \<Rightarrow> fetch_step list \<Rightarrow> bindings \<times> string list
     \<Rightarrow> plan_execution_error + bindings \<times> string list" where
  "run_steps src [] acc = Inr acc"
| "run_steps src (st # rest) (bound, gaps) =
     (case src st bound of
        Fetched v \<Rightarrow> run_steps src rest (bound @ [(step_name st, v)], gaps)
      | StepFailed cause \<Rightarrow>
          if fatal st then Inl (PlanExecutionError (step_name st) cause)
          else run_steps src rest (bound, gaps @ [step_name st]))"

text \<open>
  Modelled from the spec: \<^verbatim>\<open>Answer.confidence\<close>, the propagated minimum of the
  confidences of the contributing matches (section 3; the code is missing). Confidences
  range up to 1.0, which is the value for an answer that binds no entity.
\<close>

definition propagated_confidence :: "candidate_match list \<Rightarrow> real" where
  "propagated_confidence ms = fold (\<lambda>m c. min (confidence m) c) ms 1"

text \<open>
  Modelled from the spec: \<^verbatim>\<open>execute(plan)\<close> of the Result Aggregator (section 4.5; its
  code is missing). After the steps, the intent's aggregation function computes the
  derived facts from the bound outputs, and the narrative is rendered from the facts;
  \<^verbatim>\<open>partial\<close> is true if a tolerable step failed. The aggregation function and the
  narrative template of each intent are the parameters \<open>aggregate\<close> and \<open>render\<close>.
\<close>

definition execute ::
  "fact_source \<Rightarrow> (intent \<Rightarrow> bindings \<Rightarrow> bindings) \<Rightarrow> (intent \<Rightarrow> bindings \<Rightarrow> string)
     \<Rightarrow> query_plan \<Rightarrow> plan_execution_error + answer" where
  "execute src aggregate render p =
     (case run_steps src (steps p) ([], []) of
        Inl err \<Rightarrow> Inl err
      | Inr (bound, gaps) \<Rightarrow>
          (let fs = bound @ aggregate (plan_intent p) bound
           in Inr \<lparr>intent = plan_intent p, boundEntities = plan_entities p, facts = fs,
                   answer_confidence = propagated_confidence (plan_entities p),
                   partial = (gaps \<noteq> []),
                   narrative = render (plan_intent p) fs\<rparr>))"

text \<open>
  The outcome each step of a plan meets when the plan is executed (the loop above,
  without the abort), and from such a list the data of the steps that succeeded, bound to
  their names, and the names of the steps that failed.
\<close>

fun step_outcomes :: "fact_source \<Rightarrow> fetch_step list \<Rightarrow> bindings \<Rightarrow> (fetch_step \<times> step_outcome) list" where
  "step_outcomes src [] bound = []"
| "step_outcomes src (st # rest) bound =
     (st, src st bound)
       # step_outcomes src rest
           (case src st bound of
              Fetched v \<Rightarrow> bound @ [(step_name st, v)]
            | StepFailed cause \<Rightarrow> bound)"

fun fetched_data :: "(fetch_step \<times> step_outcome) list \<Rightarrow> bindings" where
  "fetched_data [] = []"
| "fetched_data ((st, Fetched v) # rest) = (step_name st, v) # fetched_data rest"
| "fetched_data ((st, StepFailed cause) # rest) = fetched_data rest"

fun failed_steps :: "(fetch_step \<times> step_outcome) list \<Rightarrow> string list" where
  "failed_steps [] = []"
| "failed_steps ((st, Fetched v) # rest) = failed_steps rest"
| "failed_steps ((st, StepFailed cause) # rest) = step_name st # failed_steps rest"

text \<open>
  No fatal step fails; and the outcomes of the tolerable steps only.
\<close>

fun no_fatal_failure :: "(fetch_step \<times> step_outcome) list \<Rightarrow> bool" where
  "no_fatal_failure [] = True"
| "no_fatal_failure ((st, Fetched v) # rest) = no_fatal_failure rest"
| "no_fatal_failure ((st, StepFailed cause) # rest) = (\<not> fatal st \<and> no_fatal_failure rest)"

definition tolerable_outcomes ::
  "(fetch_step \<times> step_outcome) list \<Rightarrow> (fetch_step \<times> step_outcome) list" where
  "tolerable_outcomes tr = filter (\<lambda>x. \<not> fatal (fst x)) tr"

subsection \<open>A catalog, a scoring and a plan to run the model on\<close>

definition judge :: entity where
  "judge = \<lparr>ent_id = 592450, ent_kind = Player, canonicalName = ''Aaron Judge'',
            aliases = [''Judge''], attributes = []\<rparr>"

definition dodger_stadium :: entity where
  "dodger_stadium = \<lparr>ent_id = 6956, ent_kind = Venue, canonicalName = ''Dodger Stadium'',
            aliases = [], attributes = []\<rparr>"

definition score_example :: "string \<Rightarrow> entity \<Rightarrow> (match_type \<times> real) option" where
  "score_example txt e =
     (if txt = canonicalName e then Some (Exact, 1)
      else if txt \<in> set (aliases e) then Some (Alias, 9 / 10)
      else Some (Fuzzy, 2 / 10))"

definition judge_match :: candidate_match where
  "judge_match = \<lparr>match_span = ''Judge'', entity = judge, confidence = 9 / 10, matchType = Alias\<rparr>"

definition stadium_match :: candidate_match where
  "stadium_match =
     \<lparr>match_span = ''Dodger Stadium'', entity = dodger_stadium, confidence = 1, matchType = Exact\<rparr>"

definition box_score_step :: "string \<Rightarrow> fetch_step" where
  "box_score_step name =
     \<lparr>step_name = name, operation = ''getBoxScore'', inputs = [''log''], fatal = False\<rparr>"

definition game_log_step :: fetch_step where
  "game_log_step =
     \<lparr>step_name = ''log'', operation = ''getGameLog'', inputs = [''player''], fatal = True\<rparr>"

definition plan_example :: query_plan where
  "plan_example =
     \<lparr>plan_intent = PLAYER_AT_VENUE, plan_entities = [judge_match, stadium_match],
      steps = [game_log_step, box_score_step ''g1'', box_score_step ''g2'',
               box_score_step ''g3'']\<rparr>"

definition source_example :: fact_source where
  "source_example st bound =
     (if step_name st = ''g2'' then StepFailed ''timeout'' else Fetched (Numeric 4))"

definition answer_example :: answer where
  "answer_example =
     \<lparr>intent = PLAYER_AT_VENUE, boundEntities = [judge_match, stadium_match],
      facts = [(''log'', Numeric 4), (''g1'', Numeric 4), (''g3'', Numeric 4)],
      answer_confidence = 9 / 10, partial = True, narrative = []\<rparr>"

definition aggregate_none :: "intent \<Rightarrow> bindings \<Rightarrow> bindings" where
  "aggregate_none i bound = []"

definition render_none :: "intent \<Rightarrow> bindings \<Rightarrow> string" where
  "render_none i fs = []"

section \<open>Auxiliary lemmas\<close>

lemma trim_empty_iff: "trim s = [] \<longleftrightarrow> list_all js_whitespace s"
  unfolding trim_def
  by (metis dropWhile_eq_Nil_conv list_all_iff rev_is_Nil_conv set_rev dropWhile_eq_self_iff
      hd_dropWhile)






lemma addFavoriteTeam_distinct:
  "distinct (favoriteTeams fav) \<Longrightarrow> distinct (favoritePlayers fav) \<Longrightarrow>
   distinct (favoriteTeams (snd (snd (addFavoriteTeam env t (svc, fav)))))
   \<and> distinct (favoritePlayers (snd (snd (addFavoriteTeam env t (svc, fav)))))"
  by (auto split: prod.splits sum.splits)

lemma addFavoritePlayer_distinct:
  "distinct (favoriteTeams fav) \<Longrightarrow> distinct (favoritePlayers fav) \<Longrightarrow>
   distinct (favoriteTeams (snd (snd (addFavoritePlayer env t (svc, fav)))))
   \<and> distinct (favoritePlayers (snd (snd (addFavoritePlayer env t (svc, fav)))))"
  by (auto split: prod.splits sum.splits)

lemma favorites_step_distinct:
  "distinct (favoriteTeams (snd st)) \<Longrightarrow> distinct (favoritePlayers (snd st)) \<Longrightarrow>
   distinct (favoriteTeams (snd (favorites_step a st)))
   \<and> distinct (favoritePlayers (snd (favorites_step a st)))"
proof (cases a)
  case (Pair env act)
  obtain svc fav where st: "st = (svc, fav)" by (cases st)
  assume d: "distinct (favoriteTeams (snd st))" "distinct (favoritePlayers (snd st))"
  show ?thesis
  proof (cases act)
    case (AddTeam t)
    with Pair st d addFavoriteTeam_distinct[of fav env t svc] show ?thesis by simp
  next
    case (AddPlayer p)
    with Pair st d addFavoritePlayer_distinct[of fav env p svc] show ?thesis by simp
  next
    case (RemoveTeam t)
    with Pair st d show ?thesis by (simp add: removeFavoriteTeam_def)
  next
    case (RemovePlayer p)
    with Pair st d show ?thesis by (simp add: removeFavoritePlayer_def)
  qed
qed

lemma favorites_run_distinct:
  "distinct (favoriteTeams (snd st)) \<Longrightarrow> distinct (favoritePlayers (snd st)) \<Longrightarrow>
   distinct (favoriteTeams (snd (favorites_run as st)))
   \<and> distinct (favoritePlayers (snd (favorites_run as st)))"
proof (induction as arbitrary: st)
  case Nil
  then show ?case by simp
next
  case (Cons a as)
  have "distinct (favoriteTeams (snd (favorites_step a st)))
      \<and> distinct (favoritePlayers (snd (favorites_step a st)))"
    using Cons.prems by (rule favorites_step_distinct)
  then show ?case using Cons.IH[of "favorites_step a st"] by simp
qed

lemma fold_min_le_acc: "fold (\<lambda>m c. min (confidence m) c) ms a \<le> a"
proof (induction ms arbitrary: a)
  case Nil
  then show ?case by simp
next
  case (Cons x xs)
  have "fold (\<lambda>m c. min (confidence m) c) xs (min (confidence x) a) \<le> min (confidence x) a"
    by (rule Cons.IH)
  also have "\<dots> \<le> a" by simp
  finally show ?case by simp
qed

lemma fold_min_le_elem:
  "m \<in> set ms \<Longrightarrow> fold (\<lambda>m c. min (confidence m) c) ms a \<le> confidence m"
proof (induction ms arbitrary: a)
  case Nil
  then show ?case by simp
next
  case (Cons x xs)
  show ?case
  proof (cases "m = x")
    case True
    have "fold (\<lambda>m c. min (confidence m) c) xs (min (confidence x) a) \<le> min (confidence x) a"
      by (rule fold_min_le_acc)
    with True show ?thesis by simp
  next
    case False
    with Cons.prems have "m \<in> set xs" by simp
    from Cons.IH[OF this] show ?thesis by simp
  qed
qed

lemma run_steps_outcomes:
  "run_steps src sts (b, g) = Inr (bound, gaps) \<Longrightarrow>
     bound = b @ fetched_data (step_outcomes src sts b)
     \<and> gaps = g @ failed_steps (step_outcomes src sts b)"
proof (induction sts arbitrary: b g)
  case Nil
  then show ?case by simp
next
  case (Cons st rest)
  show ?case
  proof (cases "src st b")
    case (Fetched v)
    with Cons.prems have "run_steps src rest (b @ [(step_name st, v)], g) = Inr (bound, gaps)"
      by simp
    from Cons.IH[OF this] Fetched show ?thesis by simp
  next
    case (StepFailed cause)
    with Cons.prems have nf: "\<not> fatal st" by (auto split: if_splits)
    with StepFailed Cons.prems have "run_steps src rest (b, g @ [step_name st]) = Inr (bound, gaps)"
      by simp
    from Cons.IH[OF this] StepFailed show ?thesis by simp
  qed
qed

lemma step_outcomes_steps: "map fst (step_outcomes src sts b) = sts"
  by (induction sts arbitrary: b) simp_all

lemma outcomes_count:
  "length (fetched_data tr) + length (failed_steps tr) = length tr"
  by (induction tr rule: fetched_data.induct) simp_all

lemma run_steps_no_fatal:
  "no_fatal_failure (step_outcomes src sts b) \<Longrightarrow>
     \<exists>bound gaps. run_steps src sts (b, g) = Inr (bound, gaps)"
proof (induction sts arbitrary: b g)
  case Nil
  then show ?case by simp
next
  case (Cons st rest)
  show ?case
  proof (cases "src st b")
    case (Fetched v)
    with Cons.prems have "no_fatal_failure (step_outcomes src rest (b @ [(step_name st, v)]))"
      by simp
    from Cons.IH[OF this, of g] Fetched show ?thesis by simp
  next
    case (StepFailed cause)
    with Cons.prems have tol: "\<not> fatal st" and "no_fatal_failure (step_outcomes src rest b)"
      by simp_all
    from Cons.IH[OF this(2), of "g @ [step_name st]"] StepFailed tol show ?thesis by simp
  qed
qed

lemma tolerable_no_fatal_failure:
  "\<forall>st \<in> set sts. \<not> fatal st \<Longrightarrow> no_fatal_failure (step_outcomes src sts b)"
proof (induction sts arbitrary: b)
  case Nil
  then show ?case by simp
next
  case (Cons st rest)
  then show ?case by (cases "src st b") simp_all
qed

lemma failed_steps_tolerable:
  "no_fatal_failure tr \<Longrightarrow> failed_steps (tolerable_outcomes tr) = failed_steps tr"
  by (induction tr rule: no_fatal_failure.induct) (simp_all add: tolerable_outcomes_def)

lemma fetched_data_tolerable:
  "set (fetched_data (tolerable_outcomes tr)) \<subseteq> set (fetched_data tr)"
  by (induction tr rule: fetched_data.induct) (auto simp: tolerable_outcomes_def)

lemma length_tolerable_outcomes:
  "length (tolerable_outcomes (step_outcomes src sts b)) = length (filter (\<lambda>st. \<not> fatal st) sts)"
proof -
  have "map fst (tolerable_outcomes (step_outcomes src sts b))
      = filter (\<lambda>st. \<not> fatal st) (map fst (step_outcomes src sts b))"
    by (simp add: tolerable_outcomes_def filter_map comp_def)
  then have "length (map fst (tolerable_outcomes (step_outcomes src sts b)))
      = length (filter (\<lambda>st. \<not> fatal st) sts)"
    by (simp add: step_outcomes_steps)
  then show ?thesis by simp
qed

lemma execute_example:
  "execute source_example aggregate_none render_none plan_example = Inr answer_example"
  by (simp add: execute_def plan_example_def source_example_def box_score_step_def
      game_log_step_def aggregate_none_def render_none_def propagated_confidence_def
      judge_match_def stadium_match_def answer_example_def Let_def)


section \<open>The natural-language search entry point\<close>




section \<open>Blank queries\<close>

text \<open>
  Claim C2, as the code has it. For every query text that is empty or consists only of
  white space (any of the code units that \<^verbatim>\<open>trim\<close> strips), \<^verbatim>\<open>handleSearch\<close> of the
  search screen returns at once and changes nothing: no request is sent to the backend
  (the service state, with its list of sent requests, is the one before), nothing is added
  to the search history, and the screen keeps its state; \<^verbatim>\<open>search\<close> of the hook
  likewise sends nothing and only resets its results to \<^verbatim>\<open>null\<close>. Both complete
  normally: no error and no HTTP status is produced.
\<close>

theorem blank_query_sends_nothing:
  assumes "list_all js_whitespace q"
  shows "handleSearch env now_id now_ts q (svc, store, scr) = (Inr (), svc, store, scr)
     \<and> search env q (svc, h) = (Inr (), svc, h\<lparr>hook_results := None\<rparr>)"
  using assms trim_empty_iff[of q] by simp

text \<open>
  The theorem at the query of a space, a tab, an ideographic space (U+3000), an em space
  (U+2003) and a byte order mark (U+FEFF).
\<close>

theorem blank_query_sends_nothing_witness:
  "list_all js_whitespace [0x20, 0x09, 0x3000, 0x2003, 0xFEFF]
   \<and> handleSearch env_ok 0 0 [0x20, 0x09, 0x3000, 0x2003, 0xFEFF]
         (svc_signed_in, search_initial, screen_idle)
       = (Inr (), svc_signed_in, search_initial, screen_idle)
   \<and> search env_ok [0x20, 0x09, 0x3000, 0x2003, 0xFEFF] (svc_signed_in, hook_idle)
       = (Inr (), svc_signed_in, hook_idle\<lparr>hook_results := None\<rparr>)"
proof -
  have blank: "list_all js_whitespace [0x20, 0x09, 0x3000, 0x2003, 0xFEFF]"
    by (simp add: js_whitespace_def)
  from blank
    blank_query_sends_nothing[OF blank, where env = env_ok and now_id = 0 and now_ts = 0
      and svc = svc_signed_in and store = search_initial and scr = screen_idle and h = hook_idle]
  show ?thesis by blast
qed

text \<open>
  Against claim C2 as stated (an empty text is rejected as malformed input, with a 4xx):
  on the empty text \<^verbatim>\<open>handleSearch\<close> completes normally, and as no request was sent
  no response, hence no status, exists.
\<close>

theorem empty_query_not_rejected_counterexample:
  "fst (handleSearch env_ok 0 0 [] (svc_signed_in, search_initial, screen_idle)) = Inr ()
   \<and> sent (fst (snd (handleSearch env_ok 0 0 [] (svc_signed_in, search_initial, screen_idle)))) = []"
  by (simp add: trim_def svc_signed_in_def)

section \<open>The request timeout\<close>

text \<open>
  Claim C3 at concrete runs. The one axios instance every request goes through is created
  with a timeout of 30000 ms, while the app's configuration declares
  \<^verbatim>\<open>API_TIMEOUT=10000\<close> (10 seconds): a backend that answers after 15 seconds is not
  timed out, and the search returns its payload. A request that does time out (after 30
  seconds) is a failure like an unreachable backend: the search throws
  \<^verbatim>\<open>Error('Search failed')\<close>.
\<close>

theorem api_timeout_is_30_seconds:
  "timeout_ms (axios_create (api_base_url env_slow)) = 30000
   \<and> API_TIMEOUT = 10000
   \<and> fst (naturalLanguageSearch env_slow (ascii ''Judge'') svc_signed_in) = Inr (Data None True ())
   \<and> axios_transport (axios_create (api_base_url env_stalled)) (backend env_stalled)
        \<lparr>req_method = POST, req_url = ''/api/v1/search/natural/'',
         req_authorization = Some ''Token abc123'', req_body = QueryBody (ascii ''Judge'')\<rparr>
       = Inl TimeoutError
   \<and> fst (naturalLanguageSearch env_stalled (ascii ''Judge'') svc_signed_in)
       = Inl (Error ''Search failed'')"
  by (simp add: naturalLanguageSearch_def api_request_def axios_transport_def axios_create_def
      env_slow_def backend_slow_def env_stalled_def backend_stalled_def reply_ok_def
      svc_signed_in_def API_TIMEOUT_def js_or_def Let_def)

section \<open>The confidence of an answer\<close>

text \<open>
  Claim C4, on the resolver as specified. For every Answer that \<^verbatim>\<open>execute\<close> produces,
  \<^verbatim>\<open>Answer.confidence\<close> is at most the confidence of each candidate match among the
  entities it binds, hence at most their minimum when it binds any.
\<close>

theorem answer_confidence_at_most_lowest:
  assumes "execute src aggregate render p = Inr ans"
  shows "(\<forall>m \<in> set (boundEntities ans). answer_confidence ans \<le> confidence m)
     \<and> (boundEntities ans \<noteq> [] \<longrightarrow>
          answer_confidence ans \<le> Min (confidence ` set (boundEntities ans)))"
proof -
  from assms have b: "boundEntities ans = plan_entities p"
    and c: "answer_confidence ans = propagated_confidence (plan_entities p)"
    by (auto simp: execute_def Let_def split: sum.splits prod.splits)
  have each: "\<forall>m \<in> set (boundEntities ans). answer_confidence ans \<le> confidence m"
    using b c by (simp add: propagated_confidence_def fold_min_le_elem)
  have "boundEntities ans \<noteq> [] \<Longrightarrow>
          answer_confidence ans \<le> Min (confidence ` set (boundEntities ans))"
    using each by simp
  with each show ?thesis by blast
qed

text \<open>
  The theorem at the example plan, which binds a player matched by alias (0.9) and a
  venue matched exactly (1.0): the answer's confidence is 0.9.
\<close>

theorem answer_confidence_at_most_lowest_witness:
  "execute source_example aggregate_none render_none plan_example = Inr answer_example
   \<and> map confidence (boundEntities answer_example) = [9 / 10, 1]
   \<and> answer_confidence answer_example = 9 / 10
   \<and> answer_confidence answer_example \<le> Min (confidence ` set (boundEntities answer_example))"
  using answer_confidence_at_most_lowest[OF execute_example] execute_example
  by (simp add: answer_example_def judge_match_def stadium_match_def)

section \<open>The confidence floor of the catalog lookup\<close>

text \<open>
  Claim C6, on the Entity Catalog as specified. For every kind and text,
  \<^verbatim>\<open>lookup(kind, text)\<close> returns no candidate below the minimum confidence floor, whose
  default is 0.35: its result holds exactly the candidates that clear the floor, and it is
  the empty sequence when no candidate clears it.
\<close>

theorem lookup_fails_closed:
  "(\<forall>m \<in> set (lookup score catalog k txt). confidence_floor \<le> confidence m)
   \<and> confidence_floor = 35 / 100
   \<and> ((\<forall>m \<in> set (candidates score catalog k txt). confidence m < confidence_floor) \<longrightarrow>
        lookup score catalog k txt = [])
   \<and> set (lookup score catalog k txt) =
        {m \<in> set (candidates score catalog k txt). confidence_floor \<le> confidence m}"
proof -
  have a: "set (lookup score catalog k txt) =
        {m \<in> set (candidates score catalog k txt). confidence_floor \<le> confidence m}"
    by (simp add: lookup_def lookup_with_floor_def)
  have b: "(\<forall>m \<in> set (candidates score catalog k txt). confidence m < confidence_floor) \<Longrightarrow>
        lookup score catalog k txt = []"
    by (auto simp: lookup_def lookup_with_floor_def filter_empty_conv)
  from a b show ?thesis by (simp add: confidence_floor_def)
qed

text \<open>
  The theorem at a catalog with one player and one venue: the misspelt \<^verbatim>\<open>Jugde\<close> has
  one fuzzy candidate of confidence 0.2, and the lookup returns nothing; the alias
  \<^verbatim>\<open>Judge\<close> is returned.
\<close>

theorem lookup_fails_closed_witness:
  "map confidence (candidates score_example [judge, dodger_stadium] Player ''Jugde'') = [2 / 10]
   \<and> lookup score_example [judge, dodger_stadium] Player ''Jugde'' = []
   \<and> lookup score_example [judge, dodger_stadium] Player ''Judge'' = [judge_match]"
  using lookup_fails_closed[of score_example "[judge, dodger_stadium]" Player "''Jugde''"]
  by (simp add: lookup_def lookup_with_floor_def confidence_floor_def candidates_def
      score_example_def judge_def dodger_stadium_def judge_match_def List.map_filter_simps)

section \<open>Partial results\<close>

text \<open>
  Claim C7, on the Result Aggregator as specified. For every executed Query Plan (no fatal
  step of it fails, which is so in particular when all its steps are tolerable) with N
  tolerable Fetch Steps, if exactly one step fails then \<^verbatim>\<open>execute\<close> returns an Answer
  (it does not abort), \<^verbatim>\<open>Answer.partial\<close> is true, and the data of the other N - 1
  tolerable steps, each bound to its step's name, is in \<^verbatim>\<open>Answer.facts\<close>, as is the
  data of every other step that succeeded.
\<close>

theorem one_tolerable_failure_gives_partial_answer:
  assumes nf: "no_fatal_failure (step_outcomes src (steps p) [])"
    and one: "length (failed_steps (step_outcomes src (steps p) [])) = 1"
  shows "\<exists>ans. execute src aggregate render p = Inr ans
         \<and> partial ans
         \<and> set (fetched_data (tolerable_outcomes (step_outcomes src (steps p) []))) \<subseteq> set (facts ans)
         \<and> length (fetched_data (tolerable_outcomes (step_outcomes src (steps p) [])))
             = length (filter (\<lambda>st. \<not> fatal st) (steps p)) - 1
         \<and> set (fetched_data (step_outcomes src (steps p) [])) \<subseteq> set (facts ans)
         \<and> length (fetched_data (step_outcomes src (steps p) [])) = length (steps p) - 1"
proof -
  let ?tr = "step_outcomes src (steps p) []"
  from run_steps_no_fatal[OF nf, of "[]"]
  obtain bound gaps where run: "run_steps src (steps p) ([], []) = Inr (bound, gaps)" by blast
  from run_steps_outcomes[OF run]
  have b: "bound = fetched_data ?tr" and g: "gaps = failed_steps ?tr" by simp_all
  have "length ?tr = length (steps p)"
    using step_outcomes_steps[of src "steps p" "[]"] by (metis length_map)
  with outcomes_count[of ?tr] one
  have l: "length (fetched_data ?tr) = length (steps p) - 1" by simp
  have "length (failed_steps (tolerable_outcomes ?tr)) = 1"
    using failed_steps_tolerable[OF nf] one by simp
  with outcomes_count[of "tolerable_outcomes ?tr"] length_tolerable_outcomes[of src "steps p" "[]"]
  have lt: "length (fetched_data (tolerable_outcomes ?tr))
             = length (filter (\<lambda>st. \<not> fatal st) (steps p)) - 1" by simp
  define ans where "ans = \<lparr>intent = plan_intent p, boundEntities = plan_entities p,
      facts = bound @ aggregate (plan_intent p) bound,
      answer_confidence = propagated_confidence (plan_entities p),
      partial = (gaps \<noteq> []),
      narrative = render (plan_intent p) (bound @ aggregate (plan_intent p) bound)\<rparr>"
  have ex: "execute src aggregate render p = Inr ans"
    using run by (simp add: execute_def ans_def Let_def)
  have pa: "partial ans" using one g by (auto simp: ans_def)
  have f: "set (fetched_data ?tr) \<subseteq> set (facts ans)" using b by (simp add: ans_def)
  with fetched_data_tolerable[of ?tr]
  have ft: "set (fetched_data (tolerable_outcomes ?tr)) \<subseteq> set (facts ans)" by blast
  from ex pa f ft l lt show ?thesis by blast
qed

text \<open>
  The theorem at the example plan: a fatal step that succeeds and three tolerable steps,
  the second of which times out.
\<close>

theorem one_tolerable_failure_gives_partial_answer_witness:
  "map fatal (steps plan_example) = [True, False, False, False]
   \<and> no_fatal_failure (step_outcomes source_example (steps plan_example) [])
   \<and> failed_steps (step_outcomes source_example (steps plan_example) []) = [''g2'']
   \<and> fetched_data (tolerable_outcomes (step_outcomes source_example (steps plan_example) []))
       = [(''g1'', Numeric 4), (''g3'', Numeric 4)]
   \<and> execute source_example aggregate_none render_none plan_example = Inr answer_example
   \<and> partial answer_example
   \<and> facts answer_example = [(''log'', Numeric 4), (''g1'', Numeric 4), (''g3'', Numeric 4)]"
proof -
  have nf: "no_fatal_failure (step_outcomes source_example (steps plan_example) [])"
    by (simp add: plan_example_def source_example_def box_score_step_def game_log_step_def)
  have out: "failed_steps (step_outcomes source_example (steps plan_example) []) = [''g2'']"
    by (simp add: plan_example_def source_example_def box_score_step_def game_log_step_def)
  have one: "length (failed_steps (step_outcomes source_example (steps plan_example) [])) = 1"
    by (simp add: out)
  have dat: "fetched_data (tolerable_outcomes (step_outcomes source_example (steps plan_example) []))
       = [(''g1'', Numeric 4), (''g3'', Numeric 4)]"
    by (simp add: plan_example_def source_example_def box_score_step_def game_log_step_def
        tolerable_outcomes_def)
  have fat: "map fatal (steps plan_example) = [True, False, False, False]"
    by (simp add: plan_example_def box_score_step_def game_log_step_def)
  have ans: "partial answer_example
      \<and> facts answer_example = [(''log'', Numeric 4), (''g1'', Numeric 4), (''g3'', Numeric 4)]"
    by (simp add: answer_example_def)
  from fat nf out dat ans execute_example
    one_tolerable_failure_gives_partial_answer[OF nf one, of aggregate_none render_none]
  show ?thesis by blast
qed

section \<open>Logout\<close>



text \<open>
  Beyond what the claim ranges over: when \<^verbatim>\<open>SecureStore.deleteItemAsync\<close> itself
  rejects, the \<^verbatim>\<open>finally\<close> block of \<^verbatim>\<open>mlbApi.logout\<close> is left before
  \<^verbatim>\<open>this.authToken = null\<close>; the store's \<^verbatim>\<open>logout\<close> still resolves and clears the
  store, while both tokens stay.
\<close>

lemma logout_when_secure_store_rejects:
  "logout env_store_refuses (svc_signed_in, auth_signed_in) =
     (Inr (),
      \<lparr>authToken = Some ''abc123'', secure_auth_token = Some ''abc123'', secure_deletes = 1,
       sent = [\<lparr>req_method = POST, req_url = ''/api/v1/auth/logout/'',
                req_authorization = Some ''Token abc123'', req_body = NoBody\<rparr>]\<rparr>,
      auth_initial)"
  by (simp add: env_store_refuses_def svc_signed_in_def auth_signed_in_def mlbApi_logout_def
      api_request_def axios_transport_def axios_create_def backend_ok_def reply_ok_def
      auth_initial_def deleteItemAsync_def never_def authorization_header_def Let_def)

section \<open>Favorites\<close>

text \<open>
  Claim C9. For every state of the Favorites store: when the backend call of
  \<^verbatim>\<open>addFavoriteTeam(teamId)\<close> throws, the store's action rethrows the same error and
  leaves the store unchanged; when it succeeds, the action resolves, leaves
  \<^verbatim>\<open>favoritePlayers\<close> alone and appends the id to \<^verbatim>\<open>favoriteTeams\<close> only if it is not
  there yet; the same holds for \<^verbatim>\<open>addFavoritePlayer(playerId)\<close> with the two lists
  exchanged. So after any sequence of add and remove actions, from the initial state or
  from any state without duplicates, neither list holds an id twice.
\<close>

theorem favorites_add_no_duplicates:
  "(fst (mlbApi_addFavoriteTeam env i svc) = Inl e \<longrightarrow>
      fst (addFavoriteTeam env i (svc, fav)) = Inl e
      \<and> snd (snd (addFavoriteTeam env i (svc, fav))) = fav)
   \<and> (fst (mlbApi_addFavoriteTeam env i svc) = Inr d \<longrightarrow>
      fst (addFavoriteTeam env i (svc, fav)) = Inr ()
      \<and> favoritePlayers (snd (snd (addFavoriteTeam env i (svc, fav)))) = favoritePlayers fav
      \<and> favoriteTeams (snd (snd (addFavoriteTeam env i (svc, fav)))) =
          (if i \<in> set (favoriteTeams fav) then favoriteTeams fav else favoriteTeams fav @ [i]))
   \<and> (fst (mlbApi_addFavoritePlayer env i svc) = Inl e \<longrightarrow>
      fst (addFavoritePlayer env i (svc, fav)) = Inl e
      \<and> snd (snd (addFavoritePlayer env i (svc, fav))) = fav)
   \<and> (fst (mlbApi_addFavoritePlayer env i svc) = Inr d \<longrightarrow>
      fst (addFavoritePlayer env i (svc, fav)) = Inr ()
      \<and> favoriteTeams (snd (snd (addFavoritePlayer env i (svc, fav)))) = favoriteTeams fav
      \<and> favoritePlayers (snd (snd (addFavoritePlayer env i (svc, fav)))) =
          (if i \<in> set (favoritePlayers fav) then favoritePlayers fav
           else favoritePlayers fav @ [i]))
   \<and> distinct (favoriteTeams (snd (favorites_run as (svc, favorites_initial))))
   \<and> distinct (favoritePlayers (snd (favorites_run as (svc, favorites_initial))))
   \<and> (distinct (favoriteTeams fav) \<and> distinct (favoritePlayers fav) \<longrightarrow>
        distinct (favoriteTeams (snd (favorites_run as (svc, fav))))
        \<and> distinct (favoritePlayers (snd (favorites_run as (svc, fav)))))"
proof -
  have team_fail: "fst (mlbApi_addFavoriteTeam env i svc) = Inl e \<Longrightarrow>
      fst (addFavoriteTeam env i (svc, fav)) = Inl e
      \<and> snd (snd (addFavoriteTeam env i (svc, fav))) = fav"
    by (cases "mlbApi_addFavoriteTeam env i svc") simp
  have team_ok: "fst (mlbApi_addFavoriteTeam env i svc) = Inr d \<Longrightarrow>
      fst (addFavoriteTeam env i (svc, fav)) = Inr ()
      \<and> favoritePlayers (snd (snd (addFavoriteTeam env i (svc, fav)))) = favoritePlayers fav
      \<and> favoriteTeams (snd (snd (addFavoriteTeam env i (svc, fav)))) =
          (if i \<in> set (favoriteTeams fav) then favoriteTeams fav else favoriteTeams fav @ [i])"
    by (cases "mlbApi_addFavoriteTeam env i svc") simp
  have player_fail: "fst (mlbApi_addFavoritePlayer env i svc) = Inl e \<Longrightarrow>
      fst (addFavoritePlayer env i (svc, fav)) = Inl e
      \<and> snd (snd (addFavoritePlayer env i (svc, fav))) = fav"
    by (cases "mlbApi_addFavoritePlayer env i svc") simp
  have player_ok: "fst (mlbApi_addFavoritePlayer env i svc) = Inr d \<Longrightarrow>
      fst (addFavoritePlayer env i (svc, fav)) = Inr ()
      \<and> favoriteTeams (snd (snd (addFavoritePlayer env i (svc, fav)))) = favoriteTeams fav
      \<and> favoritePlayers (snd (snd (addFavoritePlayer env i (svc, fav)))) =
          (if i \<in> set (favoritePlayers fav) then favoritePlayers fav
           else favoritePlayers fav @ [i])"
    by (cases "mlbApi_addFavoritePlayer env i svc") simp
  have init: "distinct (favoriteTeams (snd (favorites_run as (svc, favorites_initial))))
     \<and> distinct (favoritePlayers (snd (favorites_run as (svc, favorites_initial))))"
    using favorites_run_distinct[of "(svc, favorites_initial)" as]
    by (simp add: favorites_initial_def)
  have inv: "distinct (favoriteTeams fav) \<and> distinct (favoritePlayers fav) \<Longrightarrow>
        distinct (favoriteTeams (snd (favorites_run as (svc, fav))))
        \<and> distinct (favoritePlayers (snd (favorites_run as (svc, fav))))"
    using favorites_run_distinct[of "(svc, fav)" as] by simp
  from team_fail team_ok player_fail player_ok init inv show ?thesis by blast
qed

text \<open>
  The theorem at a store that holds team 147 and player 592450: an add that fails changes
  nothing, an add of a new id appends it, an add of an id already there changes nothing,
  and a history of adds and removes leaves no duplicates.
\<close>

theorem favorites_add_no_duplicates_witness:
  "fst (mlbApi_addFavoriteTeam env_backend_down 119 svc_signed_in)
      = Inl (Error ''Failed to add favorite team'')
   \<and> fst (addFavoriteTeam env_backend_down 119 (svc_signed_in, fav_example))
      = Inl (Error ''Failed to add favorite team'')
   \<and> snd (snd (addFavoriteTeam env_backend_down 119 (svc_signed_in, fav_example))) = fav_example
   \<and> fst (mlbApi_addFavoriteTeam env_ok 119 svc_signed_in) = Inr (Data None True ())
   \<and> favoriteTeams (snd (snd (addFavoriteTeam env_ok 119 (svc_signed_in, fav_example)))) = [147, 119]
   \<and> favoriteTeams (snd (snd (addFavoriteTeam env_ok 147 (svc_signed_in, fav_example)))) = [147]
   \<and> fst (mlbApi_addFavoritePlayer env_ok 660271 svc_signed_in) = Inr (Data None True ())
   \<and> favoritePlayers (snd (snd (addFavoritePlayer env_ok 660271 (svc_signed_in, fav_example))))
      = [592450, 660271]
   \<and> distinct (favoriteTeams fav_example) \<and> distinct (favoritePlayers fav_example)
   \<and> distinct (favoriteTeams (snd (favorites_run history_example (svc_signed_in, fav_example))))
   \<and> distinct (favoritePlayers (snd (favorites_run history_example (svc_signed_in, fav_example))))"
proof -
  have down: "fst (mlbApi_addFavoriteTeam env_backend_down 119 svc_signed_in)
      = Inl (Error ''Failed to add favorite team'')"
    by (simp add: mlbApi_addFavoriteTeam_def api_request_def axios_transport_def axios_create_def
        env_backend_down_def backend_down_def svc_signed_in_def js_or_def Let_def)
  have ok: "fst (mlbApi_addFavoriteTeam env_ok i svc_signed_in) = Inr (Data None True ())" for i
    by (simp add: mlbApi_addFavoriteTeam_def api_request_def axios_transport_def axios_create_def
        env_ok_def backend_ok_def reply_ok_def svc_signed_in_def Let_def)
  have okp: "fst (mlbApi_addFavoritePlayer env_ok 660271 svc_signed_in) = Inr (Data None True ())"
    by (simp add: mlbApi_addFavoritePlayer_def api_request_def axios_transport_def axios_create_def
        env_ok_def backend_ok_def reply_ok_def svc_signed_in_def Let_def)
  have d: "distinct (favoriteTeams fav_example) \<and> distinct (favoritePlayers fav_example)"
    by (simp add: fav_example_def)
  have m: "147 \<in> set (favoriteTeams fav_example)" "119 \<notin> set (favoriteTeams fav_example)"
    "660271 \<notin> set (favoritePlayers fav_example)"
    "favoriteTeams fav_example = [147]" "favoritePlayers fav_example = [592450]"
    by (simp_all add: fav_example_def)
  from down ok[of 119] ok[of 147] okp d m
    favorites_add_no_duplicates[of env_backend_down 119 svc_signed_in
      "Error ''Failed to add favorite team''" fav_example _ history_example]
    favorites_add_no_duplicates[of env_ok 119 svc_signed_in _ fav_example "Data None True ()" history_example]
    favorites_add_no_duplicates[of env_ok 147 svc_signed_in _ fav_example "Data None True ()" history_example]
    favorites_add_no_duplicates[of env_ok 660271 svc_signed_in _ fav_example "Data None True ()" history_example]
  show ?thesis by simp
qed

section \<open>Recent searches\<close>

text \<open>
  Claim C10. After every call to \<^verbatim>\<open>addSearch(query, results)\<close> the list
  \<^verbatim>\<open>recentSearches\<close> has at most 20 entries, its first entry is the search just added
  (whose result count is \<^verbatim>\<open>results.length\<close>), and the list is exactly the 20 most
  recent entries of the new search followed by the old list: the old entries kept are the
  first 19, in order, and the old list is the kept entries followed by the discarded ones,
  which are those from position 19 on.
\<close>

theorem addSearch_keeps_20_most_recent:
  "length (recentSearches (addSearch now_id now_ts q rs st)) \<le> 20
   \<and> recentSearches (addSearch now_id now_ts q rs st) =
       \<lparr>rs_id = toString now_id, rs_query = q, rs_timestamp = now_ts, rs_results = length rs\<rparr>
         # take 19 (recentSearches st)
   \<and> recentSearches (addSearch now_id now_ts q rs st) =
       take 20 (newSearch now_id now_ts q rs # recentSearches st)
   \<and> recentSearches st =
       tl (recentSearches (addSearch now_id now_ts q rs st)) @ drop 19 (recentSearches st)"
  by (simp add: addSearch_def newSearch_def)

end
